theory Spec2Isabelle
  imports Complex_Main "HOL-Library.AList"
begin

section \<open>Python values\<close>

text \<open>
  The game state and the messages are JSON dictionaries. The scalar values that the
  client and the coordinator store in them are modelled by \<open>val\<close>; JSON floats, lists and
  nested objects are not values of a game state in this model. Timestamps
  (\<open>time.time()\<close>) are modelled as reals: the rounding of float subtraction is not
  modelled.
\<close>

datatype val = VNone | VBool bool | VInt int | VStr string

datatype py_error = KeyError | TypeError | AttributeError | IndexError

text \<open>Python truthiness of a value (\<open>if x:\<close>).\<close>

fun truthy :: "val \<Rightarrow> bool" where
  "truthy VNone = False"
| "truthy (VBool b) = b"
| "truthy (VInt n) = (n \<noteq> 0)"
| "truthy (VStr s) = (s \<noteq> [])"

text \<open>
  A request field such as \<open>data.get("id")\<close>: \<open>None\<close> when the key is missing or null.
  \<open>present x\<close> is the truthiness of the field (\<open>not pid\<close> is its negation).
\<close>

definition present :: "string option \<Rightarrow> bool" where
  "present x = (case x of None \<Rightarrow> False | Some s \<Rightarrow> s \<noteq> [])"

text \<open>\<open>x + 1\<close>: defined on integers and on booleans (a subclass of int), TypeError otherwise.\<close>

fun py_add1 :: "val \<Rightarrow> py_error + val" where
  "py_add1 (VInt n) = Inr (VInt (n + 1))"
| "py_add1 (VBool b) = Inr (VInt (if b then 2 else 1))"
| "py_add1 VNone = Inl TypeError"
| "py_add1 (VStr s) = Inl TypeError"

text \<open>\<open>d[k] += 1\<close>: KeyError when the key is missing.\<close>

definition incr_key :: "(string \<rightharpoonup> val) \<Rightarrow> string \<Rightarrow> py_error + (string \<rightharpoonup> val)" where
  "incr_key d k =
     (case d k of
        None \<Rightarrow> Inl KeyError
      | Some v \<Rightarrow> (case py_add1 v of Inl e \<Rightarrow> Inl e | Inr v' \<Rightarrow> Inr (d(k \<mapsto> v'))))"

text \<open>\<open>random.choice(seq)\<close>: the element at a drawn index below \<open>len(seq)\<close>; the draw is
  the parameter \<open>r\<close>, reduced modulo the length. IndexError on an empty sequence.\<close>

definition random_choice :: "nat \<Rightarrow> 'a list \<Rightarrow> py_error + 'a" where
  "random_choice r xs = (if xs = [] then Inl IndexError else Inr (xs ! (r mod length xs)))"

section \<open>Strings: \<open>strip\<close>, \<open>lower\<close>, \<open>norm\<close>\<close>

text \<open>
  Strings are modelled on their ASCII fragment: \<open>str.strip()\<close> removes the ASCII
  characters for which \<open>str.isspace\<close> holds, \<open>str.lower()\<close> maps \<open>A\<close>..\<open>Z\<close> to
  \<open>a\<close>..\<open>z\<close>; other characters are left as they are.
\<close>

definition py_isspace :: "char \<Rightarrow> bool" where
  "py_isspace c =
     (c \<in> set [CHR 0x09, CHR 0x0A, CHR 0x0B, CHR 0x0C, CHR 0x0D,
                CHR 0x1C, CHR 0x1D, CHR 0x1E, CHR 0x1F, CHR 0x20])"

definition strip :: "string \<Rightarrow> string" where
  "strip s = rev (dropWhile py_isspace (rev (dropWhile py_isspace s)))"

definition py_lower_char :: "char \<Rightarrow> char" where
  "py_lower_char c =
     (case map_of (zip ''ABCDEFGHIJKLMNOPQRSTUVWXYZ'' ''abcdefghijklmnopqrstuvwxyz'') c of
        None \<Rightarrow> c
      | Some l \<Rightarrow> l)"

definition lower :: "string \<Rightarrow> string" where
  "lower s = map py_lower_char s"

text \<open>\<open>str(x)\<close> of a string or of \<open>None\<close>.\<close>

definition py_str :: "string option \<Rightarrow> string" where
  "py_str x = (case x of None \<Rightarrow> ''None'' | Some s \<Rightarrow> s)"

text \<open>\<open>def norm(s): return str(s).strip().lower()\<close>\<close>

definition norm :: "string option \<Rightarrow> string" where
  "norm s = lower (strip (py_str s))"

section \<open>Profiles and \<open>list_contains\<close>\<close>

text \<open>A profile attribute is a single string or a list of strings.\<close>

datatype attr = AStr string | AList "string list"

type_synonym profile = "string \<rightharpoonup> attr"

text \<open>The loop of \<open>list_contains\<close>: returns True at the first matching item.\<close>

fun contains_loop :: "string list \<Rightarrow> string option \<Rightarrow> bool" where
  "contains_loop [] query = False"
| "contains_loop (item # rest) query =
     (if norm (Some item) = norm query then True else contains_loop rest query)"

fun list_contains :: "attr \<Rightarrow> string option \<Rightarrow> bool" where
  "list_contains (AStr s) query = (norm (Some s) = norm query)"
| "list_contains (AList xs) query = contains_loop xs query"

text \<open>\<open>self.profile.get(field)\<close>: a field that is missing from the message is \<open>None\<close>,
  which is no key of the profile.\<close>

definition profile_get :: "profile \<Rightarrow> string option \<Rightarrow> attr option" where
  "profile_get prof field = (case field of None \<Rightarrow> None | Some f \<Rightarrow> prof f)"

text \<open>
  The match computed by the responder for a \<open>verify\<close> message (main.py, lines 116-122):
  a list attribute goes through \<open>list_contains\<close>; anything else, also the \<open>None\<close> of a
  missing attribute, is compared through \<open>norm\<close>.
\<close>

definition verify_match :: "profile \<Rightarrow> string option \<Rightarrow> string option \<Rightarrow> bool" where
  "verify_match prof field value =
     (case profile_get prof field of
        Some (AList xs) \<Rightarrow> list_contains (AList xs) value
      | Some (AStr s) \<Rightarrow> (norm (Some s) = norm value)
      | None \<Rightarrow> (norm None = norm value))"

section \<open>The client node\<close>

type_synonym gstate = "string \<rightharpoonup> val"

record peer =
  peer_id :: "string option"
  peer_name :: string
  host :: string
  port :: int
  peer_last_seen :: real

record node =
  node_id :: string
  node_profile :: profile
  peers :: "(string option \<times> peer) list"
  connections :: "string option \<rightharpoonup> profile"
  node_game_state :: gstate

definition DISCOVERY_TIMEOUT :: real where
  "DISCOVERY_TIMEOUT = 8"

text \<open>The local game state of a new node; \<open>gid\<close> is the generated uuid.\<close>

definition initial_game_state :: "string \<Rightarrow> gstate" where
  "initial_game_state gid =
     [''game_id'' \<mapsto> VStr gid, ''seq'' \<mapsto> VInt 0, ''sentence'' \<mapsto> VStr [],
      ''holder_id'' \<mapsto> VNone, ''completed'' \<mapsto> VBool True]"

subsection \<open>Discovery: listener and pruner\<close>

text \<open>A decoded datagram; \<open>tcp_port\<close> is \<open>None\<close> when \<open>int(...)\<close> of it raises.\<close>

record hello =
  h_type :: "string option"
  h_id :: "string option"
  h_name :: string
  h_tcp_port :: "int option"

text \<open>One iteration of the listener's loop on a received datagram (\<open>None\<close>: it does not
  decode); every exception is swallowed and leaves the table as it is.\<close>

definition listener_recv :: "node \<Rightarrow> hello option \<Rightarrow> string \<Rightarrow> real \<Rightarrow> node" where
  "listener_recv n dgram addr now =
     (case dgram of
        None \<Rightarrow> n
      | Some obj \<Rightarrow>
          if h_type obj \<noteq> Some ''hello'' then n
          else if h_id obj = Some (node_id n) then n
          else (case h_tcp_port obj of
                  None \<Rightarrow> n
                | Some prt \<Rightarrow>
                    n\<lparr>peers := AList.update (h_id obj)
                        \<lparr>peer_id = h_id obj, peer_name = h_name obj, host = addr,
                         port = prt, peer_last_seen = now\<rparr> (peers n)\<rparr>))"

text \<open>
  One sweep of the pruner (the body of its \<open>while\<close> loop, under the lock). The first loop
  reads the clock anew for every item: \<open>clock i\<close> is the reading taken for the item at
  position \<open>i\<close>. The second loop deletes the collected keys.
\<close>

fun pruner_collect :: "(nat \<Rightarrow> real) \<Rightarrow> nat \<Rightarrow> (string option \<times> peer) list \<Rightarrow> string option list" where
  "pruner_collect clock i [] = []"
| "pruner_collect clock i ((pid, p) # rest) =
     (if clock i - peer_last_seen p > DISCOVERY_TIMEOUT
      then pid # pruner_collect clock (Suc i) rest
      else pruner_collect clock (Suc i) rest)"

definition pruner :: "(nat \<Rightarrow> real) \<Rightarrow> node \<Rightarrow> node" where
  "pruner clock n =
     n\<lparr>peers := fold AList.delete (pruner_collect clock 0 (peers n)) (peers n)\<rparr>"

subsection \<open>The verification handshake\<close>

text \<open>
  A line read from the stream: end of stream (\<open>readline\<close> returns the empty string), a
  failure (\<open>readline\<close> raises on a timeout or a connection error, or \<open>json.loads\<close> raises
  on a malformed line, or the decoded value is no object), or a decoded message.
  \<open>m_ok\<close> is the truthiness of \<open>resp.get("ok", False)\<close>.
\<close>

record message =
  m_type :: "string option"
  m_field :: "string option"
  m_value :: "string option"
  m_ok :: bool
  m_profile :: "profile option"

datatype line = Eof | Broken | Msg message

datatype out_msg = VerifyResult bool | ConnectAck profile

definition full_profile :: "node \<Rightarrow> profile" where
  "full_profile n = (node_profile n)(''id'' \<mapsto> AStr (node_id n))"

text \<open>\<open>self.connections[p.get("id")] = p\<close>: the key is the profile's id, \<open>None\<close> when it
  has none; a list is unhashable (TypeError).\<close>

definition store_connection :: "node \<Rightarrow> profile \<Rightarrow> py_error + node" where
  "store_connection n p =
     (case p ''id'' of
        None \<Rightarrow> Inr (n\<lparr>connections := (connections n)(None \<mapsto> p)\<rparr>)
      | Some (AStr s) \<Rightarrow> Inr (n\<lparr>connections := (connections n)(Some s \<mapsto> p)\<rparr>)
      | Some (AList xs) \<Rightarrow> Inl TypeError)"

text \<open>What the responder's stream does: the two lines it reads, and whether its two
  writes succeed.\<close>

record resp_io =
  r_first :: line
  r_result_sent :: bool
  r_second :: line
  r_ack_sent :: bool

text \<open>
  \<open>handle_client\<close> (main.py, lines 108-144): the node after the handler and the messages
  it has written. Every exception ends the handler with the state it has then.
\<close>

definition accept_connect :: "node \<Rightarrow> message \<Rightarrow> bool \<Rightarrow> out_msg list \<Rightarrow> node \<times> out_msg list" where
  "accept_connect n msg ack_sent written =
     (case m_profile msg of
        None \<Rightarrow> (n, written)
      | Some incoming \<Rightarrow>
          (case store_connection n incoming of
             Inl e \<Rightarrow> (n, written)
           | Inr n' \<Rightarrow>
               (n', if ack_sent then written @ [ConnectAck (full_profile n)] else written)))"

definition handle_client :: "node \<Rightarrow> resp_io \<Rightarrow> node \<times> out_msg list" where
  "handle_client n io =
     (case r_first io of
        Eof \<Rightarrow> (n, [])
      | Broken \<Rightarrow> (n, [])
      | Msg msg \<Rightarrow>
          if m_type msg = Some ''verify'' then
            (let match = verify_match (node_profile n) (m_field msg) (m_value msg) in
             if r_result_sent io then
               (if match then
                  (case r_second io of
                     Eof \<Rightarrow> (n, [VerifyResult match])
                   | Broken \<Rightarrow> (n, [VerifyResult match])
                   | Msg msg2 \<Rightarrow>
                       if m_type msg2 = Some ''connect''
                       then accept_connect n msg2 (r_ack_sent io) [VerifyResult match]
                       else (n, [VerifyResult match]))
                else (n, [VerifyResult match]))
             else (n, []))
          else if m_type msg = Some ''connect'' then accept_connect n msg (r_ack_sent io) []
          else (n, []))"

text \<open>What the initiator's stream does.\<close>

record init_io =
  i_connected :: bool
  i_verify_sent :: bool
  i_reply :: line
  i_connect_sent :: bool
  i_ack :: line

definition candidates :: "node \<Rightarrow> peer list" where
  "candidates n = filter (\<lambda>p. connections n (peer_id p) = None) (map snd (peers n))"

text \<open>
  \<open>attempt_random_connection\<close> (main.py, lines 166-208). \<open>r\<close> is the draw of the peer,
  \<open>typed\<close> the line typed by the user; the drawn field only goes into the message.
\<close>

definition attempt_random_connection :: "node \<Rightarrow> nat \<Rightarrow> string \<Rightarrow> init_io \<Rightarrow> node" where
  "attempt_random_connection n r typed io =
     (case random_choice r (candidates n) of
        Inl e \<Rightarrow> n
      | Inr peer \<Rightarrow>
          if strip typed = [] then n
          else if i_connected io then
            (if i_verify_sent io then
               (case i_reply io of
                  Eof \<Rightarrow> n
                | Broken \<Rightarrow> n
                | Msg resp \<Rightarrow>
                    if m_ok resp then
                      (if i_connect_sent io then
                         (case i_ack io of
                            Eof \<Rightarrow> n
                          | Broken \<Rightarrow> n
                          | Msg ack \<Rightarrow>
                              (case m_profile ack of
                                 None \<Rightarrow> n
                               | Some their \<Rightarrow>
                                   (case store_connection n their of
                                      Inl e \<Rightarrow> n
                                    | Inr n' \<Rightarrow> n')))
                       else n)
                    else n)
             else n)
          else n)"

subsection \<open>Game actions\<close>

text \<open>A push is the payload of \<open>POST /update_game\<close>: the sender's id and its game state.\<close>

type_synonym push = "string \<times> gstate"

definition push_game_state_to_server :: "node \<Rightarrow> push" where
  "push_game_state_to_server n = (node_id n, node_game_state n)"

text \<open>\<open>sync_state_from_server\<close>: \<open>fetched\<close> is the \<open>game_state\<close> of the reply to
  \<open>GET /state\<close>, \<open>None\<close> when the request fails or the reply has none.\<close>

definition sync_state_from_server :: "node \<Rightarrow> gstate option \<Rightarrow> node" where
  "sync_state_from_server n fetched =
     (case fetched of
        None \<Rightarrow> n
      | Some gs \<Rightarrow> if gs = Map.empty then n else n\<lparr>node_game_state := gs\<rparr>)"

text \<open>\<open>d.get("completed")\<close> as a condition.\<close>

definition completed_flag :: "gstate \<Rightarrow> bool" where
  "completed_flag gs = (case gs ''completed'' of None \<Rightarrow> False | Some v \<Rightarrow> truthy v)"

text \<open>
  The game actions return the node and the push they perform, if any; \<open>Inl\<close> is an
  exception that leaves the method.
\<close>

definition start_sentence :: "node \<Rightarrow> string \<Rightarrow> string \<Rightarrow> py_error + (node \<times> push option)" where
  "start_sentence n uuid word =
     (let w = strip word in
      if w = [] then Inr (n, None)
      else
        (case incr_key ((node_game_state n)(''game_id'' \<mapsto> VStr uuid)) ''seq'' of
           Inl e \<Rightarrow> Inl e
         | Inr gs \<Rightarrow>
             (let n' = n\<lparr>node_game_state :=
                          gs(''sentence'' \<mapsto> VStr w, ''holder_id'' \<mapsto> VStr (node_id n),
                             ''completed'' \<mapsto> VBool False)\<rparr>
              in Inr (n', Some (push_game_state_to_server n')))))"

text \<open>\<open>self.game_state["sentence"] += " " + w\<close>, or the assignment of \<open>w\<close> when the
  sentence is falsy.\<close>

definition append_word :: "gstate \<Rightarrow> string \<Rightarrow> py_error + gstate" where
  "append_word gs w =
     (case gs ''sentence'' of
        None \<Rightarrow> Inl KeyError
      | Some v \<Rightarrow>
          if truthy v then
            (case v of
               VStr s \<Rightarrow> Inr (gs(''sentence'' \<mapsto> VStr (s @ '' '' @ w)))
             | VNone \<Rightarrow> Inl TypeError
             | VBool b \<Rightarrow> Inl TypeError
             | VInt i \<Rightarrow> Inl TypeError)
          else Inr (gs(''sentence'' \<mapsto> VStr w)))"

definition add_word :: "node \<Rightarrow> gstate option \<Rightarrow> string \<Rightarrow> py_error + (node \<times> push option)" where
  "add_word n fetched word =
     (let n1 = sync_state_from_server n fetched in
      if node_game_state n1 ''holder_id'' \<noteq> Some (VStr (node_id n1)) then Inr (n1, None)
      else if completed_flag (node_game_state n1) then Inr (n1, None)
      else
        (let w = strip word in
         if w = [] then Inr (n1, None)
         else
           (case append_word (node_game_state n1) w of
              Inl e \<Rightarrow> Inl e
            | Inr gs \<Rightarrow>
                (case incr_key gs ''seq'' of
                   Inl e \<Rightarrow> Inl e
                 | Inr gs' \<Rightarrow>
                     (let n' = n1\<lparr>node_game_state := gs'\<rparr>
                      in Inr (n', Some (push_game_state_to_server n')))))))"

definition endswith_dot :: "string \<Rightarrow> bool" where
  "endswith_dot s = (case rev s of [] \<Rightarrow> False | c # cs \<Rightarrow> c = CHR ''.'')"

definition end_sentence :: "node \<Rightarrow> py_error + (node \<times> push option)" where
  "end_sentence n =
     (if node_game_state n ''holder_id'' \<noteq> Some (VStr (node_id n)) then Inr (n, None)
      else if completed_flag (node_game_state n) then Inr (n, None)
      else
        (case node_game_state n ''sentence'' of
           None \<Rightarrow> Inl KeyError
         | Some (VStr raw) \<Rightarrow>
             (let s = strip raw;
                  s' = (if endswith_dot s then s else s @ ''.'')
              in (case incr_key ((node_game_state n)(''sentence'' \<mapsto> VStr s',
                                                     ''completed'' \<mapsto> VBool True)) ''seq'' of
                    Inl e \<Rightarrow> Inl e
                  | Inr gs' \<Rightarrow>
                      (let n' = n\<lparr>node_game_state := gs'\<rparr>
                       in Inr (n', Some (push_game_state_to_server n')))))
         | Some VNone \<Rightarrow> Inl AttributeError
         | Some (VBool b) \<Rightarrow> Inl AttributeError
         | Some (VInt i) \<Rightarrow> Inl AttributeError))"

section \<open>The coordinator\<close>

record participant =
  p_id :: string
  p_name :: string
  p_profile :: profile
  p_last_seen :: real

text \<open>
  The coordinator's globals: the participants (a dictionary in insertion order), the
  authoritative game state, and the queues of the subscribers.
\<close>

record server =
  participants :: "(string \<times> participant) list"
  game_state :: gstate
  sse_queues :: "gstate list list"

definition ACTIVE_TIMEOUT :: real where
  "ACTIVE_TIMEOUT = 90"

text \<open>
  A reply body: the object \<open>{"ok", "error", "new_holder"}\<close>, the JSON array that
  \<open>jsonify(obj, n)\<close> makes of its two arguments, or the page of an unhandled exception.
  A response is a body and the HTTP status: a view that returns \<open>body, code\<close> answers with
  that code, a view that returns a body alone answers 200.
\<close>

datatype body = Reply bool "string option" "string option" | ReplyArray body nat | ErrorPage

type_synonym response = "body \<times> nat"

definition broadcast_state :: "server \<Rightarrow> server" where
  "broadcast_state s = s\<lparr>sse_queues := map (\<lambda>q. q @ [game_state s]) (sse_queues s)\<rparr>"

definition register_sse :: "server \<Rightarrow> server" where
  "register_sse s = s\<lparr>sse_queues := sse_queues s @ [[game_state s]]\<rparr>"

definition register :: "server \<Rightarrow> string option \<Rightarrow> string option \<Rightarrow> profile \<Rightarrow> real \<Rightarrow> server \<times> response" where
  "register s pid name prof now =
     (case pid of
        None \<Rightarrow> (s, (Reply False (Some ''id required'') None, 400))
      | Some p \<Rightarrow>
          if p = [] then (s, (Reply False (Some ''id required'') None, 400))
          else
            (let nm = (if present name then py_str name else ''user-'' @ take 8 p);
                 s' = s\<lparr>participants := AList.update p
                         \<lparr>p_id = p, p_name = nm, p_profile = prof, p_last_seen = now\<rparr>
                         (participants s)\<rparr>
             in (broadcast_state s', (Reply True None None, 200))))"

definition heartbeat :: "server \<Rightarrow> string option \<Rightarrow> real \<Rightarrow> server \<times> response" where
  "heartbeat s pid now =
     (case pid of
        None \<Rightarrow> (s, (Reply False (Some ''id required'') None, 400))
      | Some p \<Rightarrow>
          if p = [] then (s, (Reply False (Some ''id required'') None, 400))
          else if p \<in> fst ` set (participants s) then
            (s\<lparr>participants := AList.map_entry p (\<lambda>r. r\<lparr>p_last_seen := now\<rparr>) (participants s)\<rparr>,
             (Reply True None None, 200))
          else (s, (Reply False (Some ''unknown id'') None, 404)))"

text \<open>\<open>update_game\<close> (server.py, lines 164-179). The rejection of a holder mismatch is
  \<open>return jsonify({...}, 403)\<close>: the 403 is an argument of \<open>jsonify\<close>.\<close>

definition update_game :: "server \<Rightarrow> string option \<Rightarrow> gstate option \<Rightarrow> server \<times> response" where
  "update_game s pid gs =
     (case pid of
        None \<Rightarrow> (s, (Reply False (Some ''id and game_state required'') None, 400))
      | Some p \<Rightarrow>
          (case gs of
             None \<Rightarrow> (s, (Reply False (Some ''id and game_state required'') None, 400))
           | Some g \<Rightarrow>
               if p = [] then (s, (Reply False (Some ''id and game_state required'') None, 400))
               else if g = Map.empty
               then (s, (Reply False (Some ''id and game_state required'') None, 400))
               else if g ''holder_id'' \<noteq> Some (VStr p)
               then (s, (ReplyArray (Reply False (Some ''sender must be the holder'') None) 403, 200))
               else (broadcast_state (s\<lparr>game_state := game_state s ++ g\<rparr>),
                     (Reply True None None, 200))))"

text \<open>The candidate lists of \<open>do_pass\<close>.\<close>

definition other_parts :: "server \<Rightarrow> string \<Rightarrow> participant list" where
  "other_parts s pid = filter (\<lambda>p. p_id p \<noteq> pid) (map snd (participants s))"

definition active :: "real \<Rightarrow> participant list \<Rightarrow> participant list" where
  "active now others = filter (\<lambda>p. now - p_last_seen p \<le> ACTIVE_TIMEOUT) others"

definition pool :: "real \<Rightarrow> participant list \<Rightarrow> participant list" where
  "pool now others = (if active now others \<noteq> [] then active now others else others)"

text \<open>The last lines of \<open>do_pass\<close> (218-223): the holder is assigned before the
  increment of \<open>seq\<close>, which raises when \<open>seq\<close> is no number.\<close>

definition assign_holder :: "server \<Rightarrow> string \<Rightarrow> server \<times> response" where
  "assign_holder s chosen =
     (let gs1 = (game_state s)(''holder_id'' \<mapsto> VStr chosen)
      in (case py_add1 (case gs1 ''seq'' of None \<Rightarrow> VInt 0 | Some v \<Rightarrow> v) of
            Inl e \<Rightarrow> (s\<lparr>game_state := gs1\<rparr>, (ErrorPage, 500))
          | Inr v \<Rightarrow>
              (broadcast_state (s\<lparr>game_state := gs1(''seq'' \<mapsto> v)\<rparr>),
               (Reply True None (Some chosen), 200))))"

text \<open>\<open>do_pass\<close> (server.py, lines 181-223); \<open>r\<close> is the draw of \<open>random.choice\<close>. The
  failure on an empty candidate list is \<open>return jsonify({...}, 400)\<close>: the 400 is an
  argument of \<open>jsonify\<close>.\<close>

definition do_pass :: "server \<Rightarrow> string option \<Rightarrow> string option \<Rightarrow> real \<Rightarrow> nat \<Rightarrow> server \<times> response" where
  "do_pass s pid target now r =
     (case pid of
        None \<Rightarrow> (s, (Reply False (Some ''id required'') None, 400))
      | Some p \<Rightarrow>
          if p = [] then (s, (Reply False (Some ''id required'') None, 400))
          else if other_parts s p = []
          then (s, (ReplyArray (Reply False (Some ''no other participants registered'') None) 400, 200))
          else if present target then
            (if py_str target \<in> fst ` set (participants s) then
               (if py_str target \<noteq> p then assign_holder s (py_str target)
                else (s, (Reply False (Some ''requested target invalid or not found'') None, 400)))
             else (s, (Reply False (Some ''requested target invalid or not found'') None, 400)))
          else
            (case random_choice r (pool now (other_parts s p)) of
               Inl e \<Rightarrow> (s, (ErrorPage, 500))
             | Inr c \<Rightarrow> assign_holder s (p_id c)))"

text \<open>\<open>prune_stale\<close>: the removed ids, in the order of the keys.\<close>

definition prune_stale :: "server \<Rightarrow> real \<Rightarrow> real \<Rightarrow> server \<times> string list" where
  "prune_stale s cutoff now =
     (let removed = map fst (filter (\<lambda>(k, p). now - p_last_seen p > cutoff) (participants s));
          s' = s\<lparr>participants := filter (\<lambda>(k, p). \<not> now - p_last_seen p > cutoff) (participants s)\<rparr>
      in (if removed \<noteq> [] then broadcast_state s' else s', removed))"

text \<open>Every record of the participants is stored by \<open>register\<close> under its own id.\<close>

definition keyed_by_id :: "(string \<times> participant) list \<Rightarrow> bool" where
  "keyed_by_id ps = list_all (\<lambda>(k, p). p_id p = k) ps"

text \<open>The delivery of a push to the coordinator.\<close>

definition deliver :: "server \<Rightarrow> push \<Rightarrow> server \<times> response" where
  "deliver s req = update_game s (Some (fst req)) (Some (snd req))"


section \<open>Scenarios\<close>

text \<open>Concrete coordinators and nodes on which the theorems below are evaluated.\<close>

definition pass_server :: server where
  "pass_server =
     \<lparr>participants =
        [(''A'', \<lparr>p_id = ''A'', p_name = ''Al'', p_profile = Map.empty, p_last_seen = 95\<rparr>),
         (''C'', \<lparr>p_id = ''C'', p_name = ''Cy'', p_profile = Map.empty, p_last_seen = 5\<rparr>),
         (''B'', \<lparr>p_id = ''B'', p_name = ''Bea'', p_profile = Map.empty, p_last_seen = 60\<rparr>)],
      game_state = initial_game_state ''g0'', sse_queues = [[]]\<rparr>"

definition lonely_server :: server where
  "lonely_server =
     \<lparr>participants =
        [(''A'', \<lparr>p_id = ''A'', p_name = ''Al'', p_profile = Map.empty, p_last_seen = 95\<rparr>)],
      game_state = initial_game_state ''g0'', sse_queues = [[]]\<rparr>"

definition held_server :: server where
  "held_server =
     \<lparr>participants =
        [(''B'', \<lparr>p_id = ''B'', p_name = ''Bea'', p_profile = Map.empty, p_last_seen = 60\<rparr>)],
      game_state = [''game_id'' \<mapsto> VStr ''g1'', ''seq'' \<mapsto> VInt 4, ''sentence'' \<mapsto> VStr ''Once'',
                    ''holder_id'' \<mapsto> VStr ''H'', ''completed'' \<mapsto> VBool False],
      sse_queues = []\<rparr>"

definition mismatch_state :: gstate where
  "mismatch_state = [''game_id'' \<mapsto> VStr ''g2'', ''seq'' \<mapsto> VInt 1, ''sentence'' \<mapsto> VStr ''Hi'',
                     ''holder_id'' \<mapsto> VStr ''B'', ''completed'' \<mapsto> VBool False]"

definition away_node :: node where
  "away_node =
     \<lparr>node_id = ''A'', node_profile = Map.empty, peers = [], connections = Map.empty,
      node_game_state = [''game_id'' \<mapsto> VStr ''g1'', ''seq'' \<mapsto> VInt 2, ''sentence'' \<mapsto> VStr ''Once'',
                         ''holder_id'' \<mapsto> VStr ''B'', ''completed'' \<mapsto> VBool False]\<rparr>"

definition passed_state :: gstate where
  "passed_state = [''game_id'' \<mapsto> VStr ''g1'', ''seq'' \<mapsto> VInt 3, ''sentence'' \<mapsto> VStr ''Once upon'',
                   ''holder_id'' \<mapsto> VStr ''A'', ''completed'' \<mapsto> VBool False]"

definition fresh_node :: node where
  "fresh_node =
     \<lparr>node_id = ''A'', node_profile = Map.empty, peers = [], connections = Map.empty,
      node_game_state = initial_game_state ''g9''\<rparr>"

definition holder_node :: node where
  "holder_node =
     \<lparr>node_id = ''A'', node_profile = Map.empty, peers = [], connections = Map.empty,
      node_game_state = passed_state\<rparr>"

definition started_state :: gstate where
  "started_state =
     (initial_game_state ''g9'')(''game_id'' \<mapsto> VStr ''u1'', ''seq'' \<mapsto> VInt 1,
        ''sentence'' \<mapsto> VStr ''Once'', ''holder_id'' \<mapsto> VStr ''A'', ''completed'' \<mapsto> VBool False)"

definition added_state :: gstate where
  "added_state = passed_state(''sentence'' \<mapsto> VStr ''Once upon a'', ''seq'' \<mapsto> VInt 4)"

definition ended_state :: gstate where
  "ended_state =
     passed_state(''sentence'' \<mapsto> VStr ''Once upon.'', ''completed'' \<mapsto> VBool True, ''seq'' \<mapsto> VInt 4)"

definition bea_profile :: profile where
  "bea_profile =
     [''name'' \<mapsto> AStr ''Bea'', ''hobbies'' \<mapsto> AList [''Chess'', ''go''],
      ''where_from'' \<mapsto> AStr ''Oslo'', ''pets'' \<mapsto> AList [], ''classes'' \<mapsto> AList [''CS 101'']]"

definition bea_node :: node where
  "bea_node =
     \<lparr>node_id = ''B'', node_profile = bea_profile, peers = [], connections = Map.empty,
      node_game_state = initial_game_state ''g3''\<rparr>"

definition verify_age :: message where
  "verify_age =
     \<lparr>m_type = Some ''verify'', m_field = Some ''age'', m_value = Some ''None'',
      m_ok = False, m_profile = None\<rparr>"

definition al_profile :: profile where
  "al_profile = [''name'' \<mapsto> AStr ''Al'', ''id'' \<mapsto> AStr ''A'']"

definition connect_al :: message where
  "connect_al =
     \<lparr>m_type = Some ''connect'', m_field = None, m_value = None,
      m_ok = False, m_profile = Some al_profile\<rparr>"

definition old_peer :: peer where
  "old_peer = \<lparr>peer_id = Some ''P'', peer_name = ''Pat'', host = ''10.0.0.7'', port = 4000,
                peer_last_seen = 1\<rparr>"

definition new_peer :: peer where
  "new_peer = \<lparr>peer_id = Some ''Q'', peer_name = ''Quinn'', host = ''10.0.0.8'', port = 4001,
                peer_last_seen = 5\<rparr>"

definition watching_node :: node where
  "watching_node =
     \<lparr>node_id = ''A'', node_profile = Map.empty,
      peers = [(Some ''P'', old_peer), (Some ''Q'', new_peer)],
      connections = Map.empty, node_game_state = initial_game_state ''g4''\<rparr>"

definition verify_hobby :: message where
  "verify_hobby =
     \<lparr>m_type = Some ''verify'', m_field = Some ''hobbies'', m_value = Some '' GO '',
      m_ok = False, m_profile = None\<rparr>"

definition result_ok :: message where
  "result_ok =
     \<lparr>m_type = Some ''verify_result'', m_field = None, m_value = None,
      m_ok = True, m_profile = None\<rparr>"

definition ack_bea :: message where
  "ack_bea =
     \<lparr>m_type = Some ''connect_ack'', m_field = None, m_value = None,
      m_ok = False, m_profile = Some (full_profile bea_node)\<rparr>"

definition direct_io :: resp_io where
  "direct_io = \<lparr>r_first = Msg connect_al, r_result_sent = False, r_second = Eof, r_ack_sent = False\<rparr>"

definition verified_io :: resp_io where
  "verified_io =
     \<lparr>r_first = Msg verify_hobby, r_result_sent = True, r_second = Msg connect_al, r_ack_sent = True\<rparr>"

definition complete_io :: init_io where
  "complete_io =
     \<lparr>i_connected = True, i_verify_sent = True, i_reply = Msg result_ok,
      i_connect_sent = True, i_ack = Msg ack_bea\<rparr>"

section \<open>The pass operation of the coordinator\<close>

lemma random_choice_in: "xs \<noteq> [] \<Longrightarrow> \<exists>c\<in>set xs. random_choice r xs = Inr c"
  by (simp add: random_choice_def)

lemma pool_nonempty: "others \<noteq> [] \<Longrightarrow> pool now others \<noteq> []"
  by (simp add: pool_def)

lemma pool_subset: "set (pool now others) \<subseteq> set others"
  by (auto simp: pool_def active_def)

lemma pool_active: "active now others \<noteq> [] \<Longrightarrow> pool now others = active now others"
  by (simp add: pool_def)

lemma assign_holder_holder:
  "game_state (fst (assign_holder s c)) ''holder_id'' = Some (VStr c)"
  by (simp add: assign_holder_def Let_def broadcast_state_def split: sum.splits)

lemma assign_holder_int:
  "game_state s ''seq'' = Some (VInt k) \<Longrightarrow>
   assign_holder s c =
     (broadcast_state (s\<lparr>game_state := (game_state s)(''holder_id'' \<mapsto> VStr c, ''seq'' \<mapsto> VInt (k + 1))\<rparr>),
      (Reply True None (Some c), 200))"
  by (simp add: assign_holder_def Let_def)

lemma do_pass_no_target:
  assumes "p \<noteq> []" and "\<not> present target" and "other_parts s p \<noteq> []"
  shows "\<exists>c\<in>set (pool now (other_parts s p)).
           do_pass s (Some p) target now r = assign_holder s (p_id c)"
proof -
  from assms(3) have "pool now (other_parts s p) \<noteq> []" by (rule pool_nonempty)
  then obtain c where c: "c \<in> set (pool now (other_parts s p))"
      and rc: "random_choice r (pool now (other_parts s p)) = Inr c"
    using random_choice_in by blast
  from assms rc have "do_pass s (Some p) target now r = assign_holder s (p_id c)"
    by (simp add: do_pass_def)
  with c show ?thesis by blast
qed

text \<open>
  C1. A pass without a target, by a requester \<open>p\<close> with at least one other registered
  participant, makes a record \<open>c\<close> of the other participants the holder. When some other
  participant is active (seen within \<open>ACTIVE_TIMEOUT\<close> of \<open>now\<close>), \<open>c\<close> is one of the
  active ones, whatever the draw \<open>r\<close>: an inactive participant is never chosen. Otherwise
  \<open>c\<close> is drawn from all the others.
\<close>

theorem do_pass_prefers_active:
  assumes "p \<noteq> []" and "\<not> present target" and "other_parts s p \<noteq> []"
  shows "\<exists>c\<in>set (other_parts s p).
           do_pass s (Some p) target now r = assign_holder s (p_id c)
         \<and> game_state (fst (do_pass s (Some p) target now r)) ''holder_id'' = Some (VStr (p_id c))
         \<and> (active now (other_parts s p) \<noteq> [] \<longrightarrow>
              c \<in> set (active now (other_parts s p)) \<and> now - p_last_seen c \<le> ACTIVE_TIMEOUT)"
proof -
  obtain c where c: "c \<in> set (pool now (other_parts s p))"
      and eq: "do_pass s (Some p) target now r = assign_holder s (p_id c)"
    using do_pass_no_target [OF assms] by blast
  from c have mem: "c \<in> set (other_parts s p)"
    using pool_subset by blast
  have act: "active now (other_parts s p) \<noteq> [] \<longrightarrow>
      c \<in> set (active now (other_parts s p)) \<and> now - p_last_seen c \<le> ACTIVE_TIMEOUT"
  proof
    assume "active now (other_parts s p) \<noteq> []"
    with c have "c \<in> set (active now (other_parts s p))" by (simp add: pool_active)
    then show "c \<in> set (active now (other_parts s p)) \<and> now - p_last_seen c \<le> ACTIVE_TIMEOUT"
      by (simp add: active_def)
  qed
  from eq have "game_state (fst (do_pass s (Some p) target now r)) ''holder_id'' = Some (VStr (p_id c))"
    by (simp add: assign_holder_holder)
  with mem eq act show ?thesis by blast
qed

text \<open>The requester A, an inactive C and an active B: the holder becomes B.\<close>

theorem do_pass_prefers_active_witness:
  "''A'' \<noteq> [] \<and> \<not> present None \<and> other_parts pass_server ''A'' \<noteq> []
   \<and> map p_id (active 100 (other_parts pass_server ''A'')) = [''B'']
   \<and> map p_id (other_parts pass_server ''A'') = [''C'', ''B'']
   \<and> game_state (fst (do_pass pass_server (Some ''A'') None 100 7)) ''holder_id'' = Some (VStr ''B'')"
  using do_pass_prefers_active [of "''A''" None pass_server 100 7]
  by (simp add: do_pass_def pass_server_def other_parts_def pool_def active_def ACTIVE_TIMEOUT_def
      random_choice_def present_def assign_holder_def initial_game_state_def broadcast_state_def)

lemma keyed_other:
  assumes "keyed_by_id ps" and "t \<in> fst ` set ps" and "t \<noteq> p"
  shows "filter (\<lambda>q. p_id q \<noteq> p) (map snd ps) \<noteq> []"
proof -
  from assms(2) obtain q where q: "(t, q) \<in> set ps" by auto
  with assms(1) have "p_id q = t" by (auto simp: keyed_by_id_def list_all_iff)
  with q assms(3) have "q \<in> set (filter (\<lambda>q. p_id q \<noteq> p) (map snd ps))" by force
  then show ?thesis by (metis empty_iff empty_set)
qed

lemma keyed_member:
  assumes "keyed_by_id ps" and "c \<in> set (map snd ps)"
  shows "p_id c \<in> fst ` set ps"
  using assms by (force simp: keyed_by_id_def list_all_iff)

text \<open>
  C10. The pass operation looks neither at the holder nor at whether the requester is
  registered. For every request that carries a requester id \<open>p\<close> (the handler answers
  "id required" to a missing or empty one), on a coordinator whose \<open>seq\<close> is an integer
  and whose participants are stored under their own ids: when no target is given and
  some other participant is registered, or when the given target is a registered
  participant other than \<open>p\<close>, the request succeeds with status 200, names a registered
  participant \<open>c\<close> other than \<open>p\<close> as \<open>new_holder\<close>, and makes \<open>c\<close> the holder.
\<close>

theorem do_pass_any_requester:
  assumes "p \<noteq> []" and "game_state s ''seq'' = Some (VInt k)"
    and "keyed_by_id (participants s)"
    and "if present target then py_str target \<in> fst ` set (participants s) \<and> py_str target \<noteq> p
         else other_parts s p \<noteq> []"
  shows "\<exists>c. c \<noteq> p \<and> c \<in> fst ` set (participants s)
           \<and> do_pass s (Some p) target now r =
               (broadcast_state (s\<lparr>game_state := (game_state s)(''holder_id'' \<mapsto> VStr c, ''seq'' \<mapsto> VInt (k + 1))\<rparr>),
                (Reply True None (Some c), 200))"
proof (cases "present target")
  case True
  with assms(4) have t: "py_str target \<in> fst ` set (participants s)" "py_str target \<noteq> p" by simp_all
  with assms(3) have "other_parts s p \<noteq> []"
    unfolding other_parts_def by (rule keyed_other)
  with True t assms(1) have "do_pass s (Some p) target now r = assign_holder s (py_str target)"
    by (simp add: do_pass_def)
  with t assms(2) show ?thesis by (auto simp: assign_holder_int)
next
  case False
  with assms(4) have o: "other_parts s p \<noteq> []" by simp
  obtain c where c: "c \<in> set (pool now (other_parts s p))"
      and eq: "do_pass s (Some p) target now r = assign_holder s (p_id c)"
    using do_pass_no_target [OF assms(1) False o] by blast
  from c have mem: "c \<in> set (other_parts s p)" using pool_subset by blast
  then have "p_id c \<noteq> p" and "c \<in> set (map snd (participants s))"
    by (simp_all add: other_parts_def)
  with assms(3) have "p_id c \<noteq> p" and "p_id c \<in> fst ` set (participants s)"
    by (simp_all add: keyed_member)
  with eq assms(2) show ?thesis by (auto simp: assign_holder_int)
qed

text \<open>The requester Z is not registered and the holder is H: the pass succeeds and
  makes B the holder.\<close>

theorem do_pass_any_requester_witness:
  "''Z'' \<noteq> [] \<and> game_state held_server ''seq'' = Some (VInt 4)
   \<and> keyed_by_id (participants held_server) \<and> \<not> present None
   \<and> other_parts held_server ''Z'' \<noteq> []
   \<and> ''Z'' \<notin> fst ` set (participants held_server)
   \<and> game_state held_server ''holder_id'' = Some (VStr ''H'')
   \<and> snd (do_pass held_server (Some ''Z'') None 100 3) = (Reply True None (Some ''B''), 200)
   \<and> game_state (fst (do_pass held_server (Some ''Z'') None 100 3)) ''holder_id'' = Some (VStr ''B'')
   \<and> game_state (fst (do_pass held_server (Some ''Z'') None 100 3)) ''seq'' = Some (VInt 5)"
  using do_pass_any_requester [of "''Z''" held_server 4 None 100 3]
  by (simp add: do_pass_def held_server_def other_parts_def pool_def active_def ACTIVE_TIMEOUT_def
      random_choice_def present_def assign_holder_def broadcast_state_def keyed_by_id_def)

text \<open>
  C8. A pass without a target by the only registered participant leaves the coordinator
  as it is, and the reply reports that no other participant is registered; but the
  status of the response is 200, not 400: the 400 is the second element of the JSON
  array in the body.
\<close>

theorem do_pass_no_others_status:
  "do_pass lonely_server (Some ''A'') None 100 0 =
     (lonely_server, (ReplyArray (Reply False (Some ''no other participants registered'') None) 400, 200))"
  by (simp add: do_pass_def lonely_server_def other_parts_def)

section \<open>The update of the game state\<close>

text \<open>
  C4. An update whose game state names another holder than the sender leaves the
  coordinator as it is (no change of the game state, nothing put into the queues); but
  the status of the response is 200, not 403: the 403 is the second element of the JSON
  array in the body.
\<close>

theorem update_game_mismatch_status:
  "update_game pass_server (Some ''A'') (Some mismatch_state) =
     (pass_server, (ReplyArray (Reply False (Some ''sender must be the holder'') None) 403, 200))"
proof -
  have "mismatch_state \<noteq> Map.empty"
    by (simp add: mismatch_state_def)
  moreover have "mismatch_state ''holder_id'' \<noteq> Some (VStr ''A'')"
    by (simp add: mismatch_state_def)
  ultimately show ?thesis by (simp add: update_game_def)
qed

section \<open>The game actions of the client\<close>

text \<open>A word is blank when \<open>strip\<close> leaves nothing of it: all its characters are whitespace.\<close>

lemma strip_empty_iff: "strip w = [] \<longleftrightarrow> list_all py_isspace w"
proof -
  have a: "strip w = [] \<longleftrightarrow> (\<forall>x\<in>set (dropWhile py_isspace w). py_isspace x)"
    by (simp add: strip_def)
  have b: "(\<forall>x\<in>set (dropWhile py_isspace w). py_isspace x) \<longleftrightarrow> (\<forall>c\<in>set w. py_isspace c)"
    by (metis dropWhile_eq_Nil_conv hd_dropWhile list.set_sel(1) set_dropWhileD)
  from a b show ?thesis by (simp add: list_all_iff)
qed

text \<open>
  C7. \<open>start_sentence\<close> on an empty or blank word returns the node as it is and performs
  no push. On any other word, whatever the holder and the \<open>completed\<close> flag of the local
  state, whose \<open>seq\<close> is an integer \<open>k\<close>: the game id becomes the generated \<open>uuid\<close>, \<open>seq\<close>
  becomes \<open>k + 1\<close>, the sentence the stripped word, the holder the node itself, \<open>completed\<close>
  false; this state is pushed.
\<close>

theorem start_sentence_effect:
  "(list_all py_isspace word \<longrightarrow> start_sentence n uuid word = Inr (n, None))
   \<and> (\<not> list_all py_isspace word \<and> node_game_state n ''seq'' = Some (VInt k) \<longrightarrow>
        start_sentence n uuid word =
          Inr (n\<lparr>node_game_state :=
                  (node_game_state n)(''game_id'' \<mapsto> VStr uuid, ''seq'' \<mapsto> VInt (k + 1),
                     ''sentence'' \<mapsto> VStr (strip word), ''holder_id'' \<mapsto> VStr (node_id n),
                     ''completed'' \<mapsto> VBool False)\<rparr>,
               Some (node_id n,
                  (node_game_state n)(''game_id'' \<mapsto> VStr uuid, ''seq'' \<mapsto> VInt (k + 1),
                     ''sentence'' \<mapsto> VStr (strip word), ''holder_id'' \<mapsto> VStr (node_id n),
                     ''completed'' \<mapsto> VBool False))))"
  by (simp add: start_sentence_def incr_key_def push_game_state_to_server_def
      strip_empty_iff [symmetric] Let_def)

text \<open>A node whose local state has another holder: a blank word, and the word Twice.\<close>

theorem start_sentence_effect_witness:
  "list_all py_isspace ''  '' \<and> start_sentence away_node ''u1'' ''  '' = Inr (away_node, None)
   \<and> \<not> list_all py_isspace '' Twice '' \<and> node_game_state away_node ''seq'' = Some (VInt 2)
   \<and> strip '' Twice '' = ''Twice''
   \<and> start_sentence away_node ''u1'' '' Twice '' =
        Inr (away_node\<lparr>node_game_state :=
                  (node_game_state away_node)(''game_id'' \<mapsto> VStr ''u1'', ''seq'' \<mapsto> VInt 3,
                     ''sentence'' \<mapsto> VStr ''Twice'', ''holder_id'' \<mapsto> VStr ''A'',
                     ''completed'' \<mapsto> VBool False)\<rparr>,
               Some (''A'',
                  (node_game_state away_node)(''game_id'' \<mapsto> VStr ''u1'', ''seq'' \<mapsto> VInt 3,
                     ''sentence'' \<mapsto> VStr ''Twice'', ''holder_id'' \<mapsto> VStr ''A'',
                     ''completed'' \<mapsto> VBool False)))"
proof -
  have a: "list_all py_isspace ''  ''" by (simp add: py_isspace_def)
  have b: "\<not> list_all py_isspace '' Twice ''" by (simp add: py_isspace_def)
  have c: "node_game_state away_node ''seq'' = Some (VInt 2)" by (simp add: away_node_def)
  have d: "strip '' Twice '' = ''Twice''" by (simp add: strip_def py_isspace_def)
  have e: "node_id away_node = ''A''" by (simp add: away_node_def)
  from a b c d e start_sentence_effect [of "''  ''" away_node "''u1''" 2]
       start_sentence_effect [of "'' Twice ''" away_node "''u1''" 2]
  show ?thesis by simp
qed

text \<open>
  C6 (amended). \<open>end_sentence\<close> is a no-op (same node, no push) when the local holder is
  not the node or the local \<open>completed\<close> is truthy. \<open>add_word\<close> first replaces the local game
  state by the one pulled from the coordinator, when the pull yields a non-empty one;
  when the holder of the state after the pull is not the node, or its \<open>completed\<close> is
  truthy, \<open>add_word\<close> changes nothing more and performs no push. When the pull fails, the
  state after the pull is the local state.
\<close>

theorem add_end_without_custody:
  "(node_game_state n ''holder_id'' \<noteq> Some (VStr (node_id n)) \<or> completed_flag (node_game_state n)
      \<longrightarrow> end_sentence n = Inr (n, None))
   \<and> (node_game_state (sync_state_from_server n fetched) ''holder_id'' \<noteq> Some (VStr (node_id n))
        \<or> completed_flag (node_game_state (sync_state_from_server n fetched))
      \<longrightarrow> add_word n fetched word = Inr (sync_state_from_server n fetched, None))
   \<and> sync_state_from_server n None = n"
proof -
  have "node_id (sync_state_from_server n fetched) = node_id n"
    by (simp add: sync_state_from_server_def split: option.splits)
  then show ?thesis
    by (auto simp: end_sentence_def add_word_def Let_def sync_state_from_server_def)
qed

text \<open>A node that is not the holder, with a failed pull.\<close>

theorem add_end_without_custody_witness:
  "node_game_state away_node ''holder_id'' \<noteq> Some (VStr (node_id away_node))
   \<and> end_sentence away_node = Inr (away_node, None)
   \<and> add_word away_node None ''upon'' = Inr (away_node, None)"
proof -
  have a: "node_game_state away_node ''holder_id'' \<noteq> Some (VStr (node_id away_node))"
    by (simp add: away_node_def)
  with add_end_without_custody [of away_node None "''upon''"] show ?thesis
    by simp
qed

text \<open>
  C6 as stated fails: the local holder is B, the node is A, and the coordinator's state
  names A as holder. \<open>add_word\<close> pulls that state, appends the word, increments \<open>seq\<close> and
  pushes.
\<close>

theorem add_word_after_pull_counterexample:
  "node_game_state away_node ''holder_id'' \<noteq> Some (VStr (node_id away_node))
   \<and> add_word away_node (Some passed_state) ''a'' \<noteq> Inr (away_node, None)
   \<and> add_word away_node (Some passed_state) ''a'' =
       Inr (away_node\<lparr>node_game_state := passed_state(''sentence'' \<mapsto> VStr ''Once upon a'', ''seq'' \<mapsto> VInt 4)\<rparr>,
            Some (''A'', passed_state(''sentence'' \<mapsto> VStr ''Once upon a'', ''seq'' \<mapsto> VInt 4)))"
proof -
  have ne: "passed_state \<noteq> Map.empty" by (simp add: passed_state_def)
  have h: "passed_state ''holder_id'' = Some (VStr ''A'')" by (simp add: passed_state_def)
  have c: "passed_state ''completed'' = Some (VBool False)" by (simp add: passed_state_def)
  have s: "passed_state ''sentence'' = Some (VStr ''Once upon'')" by (simp add: passed_state_def)
  have q: "passed_state ''seq'' = Some (VInt 3)" by (simp add: passed_state_def)
  have w: "strip ''a'' = ''a''" by (simp add: strip_def py_isspace_def)
  have i: "node_id away_node = ''A''" by (simp add: away_node_def)
  have l: "node_game_state away_node ''holder_id'' \<noteq> Some (VStr (node_id away_node))"
    by (simp add: away_node_def)
  have r: "add_word away_node (Some passed_state) ''a'' =
       Inr (away_node\<lparr>node_game_state := passed_state(''sentence'' \<mapsto> VStr ''Once upon a'', ''seq'' \<mapsto> VInt 4)\<rparr>,
            Some (''A'', passed_state(''sentence'' \<mapsto> VStr ''Once upon a'', ''seq'' \<mapsto> VInt 4)))"
    using ne h c s q w i
    by (simp add: add_word_def sync_state_from_server_def completed_flag_def append_word_def
        incr_key_def push_game_state_to_server_def Let_def)
  from l r show ?thesis by simp
qed

section \<open>The sequence number\<close>

lemma update_game_accepted_seq:
  assumes "snd (update_game s pid (Some g)) = (Reply True None None, 200)"
  shows "game_state (fst (update_game s pid (Some g))) ''seq'' =
           (case g ''seq'' of None \<Rightarrow> game_state s ''seq'' | Some v \<Rightarrow> Some v)"
  using assms
  by (auto simp: update_game_def broadcast_state_def map_add_def split: option.splits if_splits)

lemma deliver_accepted_seq:
  assumes "snd (deliver s req) = (Reply True None None, 200)" and "snd req ''seq'' = Some v"
  shows "game_state (fst (deliver s req)) ''seq'' = Some v"
  using update_game_accepted_seq [of s "Some (fst req)" "snd req"] assms
  by (simp add: deliver_def)

lemma do_pass_accepted_seq:
  assumes "snd (do_pass s pid target now r) = (Reply True None (Some c), 200)"
    and "game_state s ''seq'' = Some (VInt k)"
  shows "game_state (fst (do_pass s pid target now r)) ''seq'' = Some (VInt (k + 1))"
  using assms
  by (auto simp: do_pass_def assign_holder_int broadcast_state_def
      split: option.splits if_splits sum.splits)

lemma start_sentence_push_seq:
  assumes "node_game_state n ''seq'' = Some (VInt j)"
    and "start_sentence n uuid word = Inr (n', Some req)"
  shows "snd req ''seq'' = Some (VInt (j + 1))"
  using assms
  by (auto simp: start_sentence_def incr_key_def push_game_state_to_server_def Let_def
      split: if_splits)

lemma append_word_seq: "append_word gs w = Inr gs' \<Longrightarrow> gs' ''seq'' = gs ''seq''"
  by (auto simp: append_word_def split: option.splits if_splits val.splits)

lemma add_word_push_seq:
  assumes "node_game_state (sync_state_from_server n fetched) ''seq'' = Some (VInt j)"
    and "add_word n fetched word = Inr (n', Some req)"
  shows "snd req ''seq'' = Some (VInt (j + 1))"
proof -
  let ?n1 = "sync_state_from_server n fetched"
  from assms(2) obtain gs gs' where a: "append_word (node_game_state ?n1) (strip word) = Inr gs"
      and i: "incr_key gs ''seq'' = Inr gs'" and r: "req = (node_id ?n1, gs')"
    by (auto simp: add_word_def push_game_state_to_server_def Let_def
        split: if_splits sum.splits)
  from a assms(1) have "gs ''seq'' = Some (VInt j)" by (simp add: append_word_seq)
  with i have "gs' ''seq'' = Some (VInt (j + 1))" by (auto simp: incr_key_def)
  with r show ?thesis by simp
qed

lemma end_sentence_push_seq:
  assumes "node_game_state n ''seq'' = Some (VInt j)"
    and "end_sentence n = Inr (n', Some req)"
  shows "snd req ''seq'' = Some (VInt (j + 1))"
  using assms
  by (auto simp: end_sentence_def incr_key_def push_game_state_to_server_def Let_def
      split: if_splits option.splits val.splits)

text \<open>
  C2 (amended). An accepted pass sets the coordinator's \<open>seq\<close> to its \<open>seq\<close> before plus 1.
  An accepted \<open>update_game\<close> sets the coordinator's \<open>seq\<close> to the \<open>seq\<close> of the posted game
  state (and leaves it when the posted state has none). \<open>start_sentence\<close>, \<open>add_word\<close> and
  \<open>end_sentence\<close> push the local \<open>seq\<close> plus 1 (for \<open>add_word\<close>, the \<open>seq\<close> of the local state
  after the pull), so that after the coordinator has accepted the push its \<open>seq\<close> is the
  client's local \<open>seq\<close> plus 1.
\<close>

theorem seq_after_accepted_mutation:
  "(snd (do_pass s pid target now r) = (Reply True None (Some c), 200)
      \<and> game_state s ''seq'' = Some (VInt k)
      \<longrightarrow> game_state (fst (do_pass s pid target now r)) ''seq'' = Some (VInt (k + 1)))
   \<and> (snd (update_game s pid (Some g)) = (Reply True None None, 200)
      \<longrightarrow> game_state (fst (update_game s pid (Some g))) ''seq'' =
            (case g ''seq'' of None \<Rightarrow> game_state s ''seq'' | Some v \<Rightarrow> Some v))
   \<and> (node_game_state n ''seq'' = Some (VInt j)
      \<and> start_sentence n uuid word = Inr (n1, Some req1)
      \<and> snd (deliver s req1) = (Reply True None None, 200)
      \<longrightarrow> game_state (fst (deliver s req1)) ''seq'' = Some (VInt (j + 1)))
   \<and> (node_game_state (sync_state_from_server n fetched) ''seq'' = Some (VInt j)
      \<and> add_word n fetched word = Inr (n2, Some req2)
      \<and> snd (deliver s req2) = (Reply True None None, 200)
      \<longrightarrow> game_state (fst (deliver s req2)) ''seq'' = Some (VInt (j + 1)))
   \<and> (node_game_state n ''seq'' = Some (VInt j)
      \<and> end_sentence n = Inr (n3, Some req3)
      \<and> snd (deliver s req3) = (Reply True None None, 200)
      \<longrightarrow> game_state (fst (deliver s req3)) ''seq'' = Some (VInt (j + 1)))"
proof -
  have a: "snd (do_pass s pid target now r) = (Reply True None (Some c), 200)
      \<and> game_state s ''seq'' = Some (VInt k)
      \<longrightarrow> game_state (fst (do_pass s pid target now r)) ''seq'' = Some (VInt (k + 1))"
    using do_pass_accepted_seq by blast
  have b: "snd (update_game s pid (Some g)) = (Reply True None None, 200)
      \<longrightarrow> game_state (fst (update_game s pid (Some g))) ''seq'' =
            (case g ''seq'' of None \<Rightarrow> game_state s ''seq'' | Some v \<Rightarrow> Some v)"
    using update_game_accepted_seq by blast
  have c: "node_game_state n ''seq'' = Some (VInt j)
      \<and> start_sentence n uuid word = Inr (n1, Some req1)
      \<and> snd (deliver s req1) = (Reply True None None, 200)
      \<longrightarrow> game_state (fst (deliver s req1)) ''seq'' = Some (VInt (j + 1))"
    using start_sentence_push_seq deliver_accepted_seq by blast
  have d: "node_game_state (sync_state_from_server n fetched) ''seq'' = Some (VInt j)
      \<and> add_word n fetched word = Inr (n2, Some req2)
      \<and> snd (deliver s req2) = (Reply True None None, 200)
      \<longrightarrow> game_state (fst (deliver s req2)) ''seq'' = Some (VInt (j + 1))"
    using add_word_push_seq deliver_accepted_seq by blast
  have e: "node_game_state n ''seq'' = Some (VInt j)
      \<and> end_sentence n = Inr (n3, Some req3)
      \<and> snd (deliver s req3) = (Reply True None None, 200)
      \<longrightarrow> game_state (fst (deliver s req3)) ''seq'' = Some (VInt (j + 1))"
    using end_sentence_push_seq deliver_accepted_seq by blast
  from a b c d e show ?thesis by blast
qed

lemma passed_state_values:
  "passed_state \<noteq> Map.empty" "passed_state ''holder_id'' = Some (VStr ''A'')"
  "passed_state ''completed'' = Some (VBool False)"
  "passed_state ''sentence'' = Some (VStr ''Once upon'')"
  "passed_state ''seq'' = Some (VInt 3)"
  by (simp_all add: passed_state_def)

lemma holder_node_add:
  "add_word holder_node None ''a'' =
     Inr (holder_node\<lparr>node_game_state := added_state\<rparr>, Some (''A'', added_state))"
proof -
  have w: "strip ''a'' = ''a''" by (simp add: strip_def py_isspace_def)
  show ?thesis
    using w passed_state_values
    by (simp add: add_word_def sync_state_from_server_def completed_flag_def append_word_def
        incr_key_def push_game_state_to_server_def Let_def holder_node_def added_state_def)
qed

lemma holder_node_end:
  "end_sentence holder_node =
     Inr (holder_node\<lparr>node_game_state := ended_state\<rparr>, Some (''A'', ended_state))"
proof -
  have w: "strip ''Once upon'' = ''Once upon''" by (simp add: strip_def py_isspace_def)
  show ?thesis
    using w passed_state_values
    by (simp add: end_sentence_def completed_flag_def endswith_dot_def
        incr_key_def push_game_state_to_server_def Let_def holder_node_def ended_state_def)
qed

lemma fresh_node_start:
  "start_sentence fresh_node ''u1'' ''Once'' =
     Inr (fresh_node\<lparr>node_game_state := started_state\<rparr>, Some (''A'', started_state))"
proof -
  have w: "strip ''Once'' = ''Once''" by (simp add: strip_def py_isspace_def)
  have q: "initial_game_state ''g9'' ''seq'' = Some (VInt 0)" by (simp add: initial_game_state_def)
  show ?thesis
    using w q
    by (simp add: start_sentence_def incr_key_def push_game_state_to_server_def Let_def
        fresh_node_def started_state_def)
qed

lemma deliver_accepts:
  assumes "g ''holder_id'' = Some (VStr p)" and "p \<noteq> []"
  shows "deliver s (p, g) = (broadcast_state (s\<lparr>game_state := game_state s ++ g\<rparr>), (Reply True None None, 200))"
proof -
  from assms(1) have "g \<noteq> Map.empty" by auto
  with assms show ?thesis by (simp add: deliver_def update_game_def)
qed

text \<open>A pass, a posted state, and a start, an addition and an end pushed to a
  coordinator whose \<open>seq\<close> the client's local \<open>seq\<close> does not equal.\<close>

theorem seq_after_accepted_mutation_witness:
  "snd (do_pass held_server (Some ''Z'') None 100 3) = (Reply True None (Some ''B''), 200)
   \<and> game_state held_server ''seq'' = Some (VInt 4)
   \<and> game_state (fst (do_pass held_server (Some ''Z'') None 100 3)) ''seq'' = Some (VInt 5)
   \<and> snd (update_game held_server (Some ''A'') (Some passed_state)) = (Reply True None None, 200)
   \<and> game_state (fst (update_game held_server (Some ''A'') (Some passed_state))) ''seq'' = Some (VInt 3)
   \<and> node_game_state fresh_node ''seq'' = Some (VInt 0)
   \<and> start_sentence fresh_node ''u1'' ''Once'' =
        Inr (fresh_node\<lparr>node_game_state := started_state\<rparr>, Some (''A'', started_state))
   \<and> snd (deliver held_server (''A'', started_state)) = (Reply True None None, 200)
   \<and> game_state (fst (deliver held_server (''A'', started_state))) ''seq'' = Some (VInt 1)
   \<and> node_game_state (sync_state_from_server holder_node None) ''seq'' = Some (VInt 3)
   \<and> add_word holder_node None ''a'' =
        Inr (holder_node\<lparr>node_game_state := added_state\<rparr>, Some (''A'', added_state))
   \<and> snd (deliver held_server (''A'', added_state)) = (Reply True None None, 200)
   \<and> game_state (fst (deliver held_server (''A'', added_state))) ''seq'' = Some (VInt 4)
   \<and> end_sentence holder_node =
        Inr (holder_node\<lparr>node_game_state := ended_state\<rparr>, Some (''A'', ended_state))
   \<and> snd (deliver held_server (''A'', ended_state)) = (Reply True None None, 200)
   \<and> game_state (fst (deliver held_server (''A'', ended_state))) ''seq'' = Some (VInt 4)"
proof -
  have p1: "snd (do_pass held_server (Some ''Z'') None 100 3) = (Reply True None (Some ''B''), 200)"
    by (simp add: do_pass_def held_server_def other_parts_def pool_def active_def ACTIVE_TIMEOUT_def
      random_choice_def present_def assign_holder_def broadcast_state_def)
  have p2: "game_state held_server ''seq'' = Some (VInt 4)"
    by (simp add: held_server_def)
  have u1: "snd (update_game held_server (Some ''A'') (Some passed_state)) = (Reply True None None, 200)"
    using deliver_accepts [of passed_state "''A''" held_server] passed_state_values
    by (simp add: deliver_def)
  have s1: "node_game_state fresh_node ''seq'' = Some (VInt 0)"
    by (simp add: fresh_node_def initial_game_state_def)
  have s3: "snd (deliver held_server (''A'', started_state)) = (Reply True None None, 200)"
    by (rule deliver_accepts [THEN arg_cong [of _ _ snd], simplified]) (simp_all add: started_state_def)
  have a1: "node_game_state (sync_state_from_server holder_node None) ''seq'' = Some (VInt 3)"
    by (simp add: sync_state_from_server_def holder_node_def passed_state_values)
  have a3: "snd (deliver held_server (''A'', added_state)) = (Reply True None None, 200)"
    by (rule deliver_accepts [THEN arg_cong [of _ _ snd], simplified])
       (simp_all add: added_state_def passed_state_values)
  have e1: "node_game_state holder_node ''seq'' = Some (VInt 3)"
    by (simp add: holder_node_def passed_state_values)
  have e3: "snd (deliver held_server (''A'', ended_state)) = (Reply True None None, 200)"
    by (rule deliver_accepts [THEN arg_cong [of _ _ snd], simplified])
       (simp_all add: ended_state_def passed_state_values)
  note t = seq_after_accepted_mutation
    [where s = held_server and pid = "Some ''Z''" and target = None and now = 100 and r = 3
       and c = "''B''" and k = 4 and g = passed_state]
  from t p1 p2
  have c1: "game_state (fst (do_pass held_server (Some ''Z'') None 100 3)) ''seq'' = Some (VInt 5)"
    by simp
  from seq_after_accepted_mutation [where s = held_server and pid = "Some ''A''" and g = passed_state] u1
  have c2: "game_state (fst (update_game held_server (Some ''A'') (Some passed_state))) ''seq'' = Some (VInt 3)"
    by (simp add: passed_state_values)
  from seq_after_accepted_mutation [where s = held_server and n = fresh_node and j = 0
      and uuid = "''u1''" and word = "''Once''" and ?n1.0 = "fresh_node\<lparr>node_game_state := started_state\<rparr>"
      and ?req1.0 = "(''A'', started_state)"] s1 fresh_node_start s3
  have c3: "game_state (fst (deliver held_server (''A'', started_state))) ''seq'' = Some (VInt 1)"
    by simp
  from seq_after_accepted_mutation [where s = held_server and n = holder_node and j = 3
      and fetched = None and word = "''a''" and ?n2.0 = "holder_node\<lparr>node_game_state := added_state\<rparr>"
      and ?req2.0 = "(''A'', added_state)"] a1 holder_node_add a3
  have c4: "game_state (fst (deliver held_server (''A'', added_state))) ''seq'' = Some (VInt 4)"
    by simp
  from seq_after_accepted_mutation [where s = held_server and n = holder_node and j = 3
      and ?n3.0 = "holder_node\<lparr>node_game_state := ended_state\<rparr>"
      and ?req3.0 = "(''A'', ended_state)"] e1 holder_node_end e3
  have c5: "game_state (fst (deliver held_server (''A'', ended_state))) ''seq'' = Some (VInt 4)"
    by simp
  from p1 p2 c1 u1 c2 s1 fresh_node_start s3 c3 a1 holder_node_add a3 c4 holder_node_end e3 c5
  show ?thesis by simp
qed

text \<open>
  C2 as stated fails: a node whose local \<open>seq\<close> is 0 starts a sentence and pushes \<open>seq\<close> 1
  to a coordinator whose \<open>seq\<close> is 4. The coordinator accepts the push, and its \<open>seq\<close>
  becomes 1, not 5.
\<close>

theorem stale_start_seq_counterexample:
  "game_state held_server ''seq'' = Some (VInt 4)
   \<and> start_sentence fresh_node ''u1'' ''Once'' =
        Inr (fresh_node\<lparr>node_game_state := started_state\<rparr>, Some (''A'', started_state))
   \<and> snd (deliver held_server (''A'', started_state)) = (Reply True None None, 200)
   \<and> game_state (fst (deliver held_server (''A'', started_state))) ''seq'' = Some (VInt 1)
   \<and> game_state (fst (deliver held_server (''A'', started_state))) ''seq'' \<noteq> Some (VInt (4 + 1))"
proof -
  have h: "started_state ''holder_id'' = Some (VStr ''A'')" by (simp add: started_state_def)
  have q: "started_state ''seq'' = Some (VInt 1)" by (simp add: started_state_def)
  have d: "deliver held_server (''A'', started_state) =
      (broadcast_state (held_server\<lparr>game_state := game_state held_server ++ started_state\<rparr>),
       (Reply True None None, 200))"
    using h by (simp add: deliver_accepts)
  have s: "game_state held_server ''seq'' = Some (VInt 4)" by (simp add: held_server_def)
  from d q have r: "game_state (fst (deliver held_server (''A'', started_state))) ''seq'' = Some (VInt 1)"
    by (simp add: broadcast_state_def)
  from s fresh_node_start d r show ?thesis by simp
qed

section \<open>The verification of a claimed attribute\<close>

lemma contains_loop_iff:
  "contains_loop xs query \<longleftrightarrow> (\<exists>item\<in>set xs. norm (Some item) = norm query)"
  by (induction xs) auto

text \<open>For an attribute that the profile has, the match is the one of the normalised
  strings, or of some element of the list.\<close>

lemma verify_match_present:
  "prof f = Some (AStr s) \<Longrightarrow> verify_match prof (Some f) value \<longleftrightarrow> norm (Some s) = norm value"
  "prof f = Some (AList xs) \<Longrightarrow>
     verify_match prof (Some f) value \<longleftrightarrow> (\<exists>item\<in>set xs. norm (Some item) = norm value)"
  by (simp_all add: verify_match_def profile_get_def contains_loop_iff)

text \<open>
  C5. The responder's profile has no attribute \<open>age\<close>, and the verify message claims the
  value \<open>None\<close> for it: the responder replies \<open>verify_result\<close> with \<open>ok\<close> true, since the
  \<open>None\<close> of the missing attribute is normalised to the string \<open>none\<close>.
\<close>

theorem verify_missing_attribute_accepted:
  "bea_profile ''age'' = None
   \<and> snd (handle_client bea_node
        \<lparr>r_first = Msg verify_age, r_result_sent = True, r_second = Eof, r_ack_sent = True\<rparr>)
       = [VerifyResult True]"
proof -
  have a: "bea_profile ''age'' = None" by (simp add: bea_profile_def)
  have n1: "norm None = ''none''"
    by (simp add: norm_def lower_def strip_def py_str_def py_isspace_def py_lower_char_def)
  have n2: "norm (Some ''None'') = ''none''"
    by (simp add: norm_def lower_def strip_def py_str_def py_isspace_def py_lower_char_def)
  from a n1 n2 have "verify_match bea_profile (Some ''age'') (Some ''None'')"
    by (simp add: verify_match_def profile_get_def)
  with a show ?thesis
    by (simp add: handle_client_def verify_age_def bea_node_def)
qed

section \<open>The sweep of the peer table\<close>

lemma fold_delete_map_of:
  "map_of (fold AList.delete ks ps) k = (if k \<in> set ks then None else map_of ps k)"
proof (induction ks arbitrary: ps)
  case Nil
  then show ?case by simp
next
  case (Cons a ks)
  then show ?case by (simp add: AList.delete_conv')
qed

lemma pruner_collect_iff:
  "pid \<in> set (pruner_collect clock j ps) \<longleftrightarrow>
     (\<exists>i<length ps. fst (ps ! i) = pid
        \<and> clock (j + i) - peer_last_seen (snd (ps ! i)) > DISCOVERY_TIMEOUT)"
proof (induction ps arbitrary: j)
  case Nil
  then show ?case by simp
next
  case (Cons a ps)
  obtain k q where a: "a = (k, q)" by (cases a)
  have split: "\<And>P. (\<exists>i<Suc (length ps). P i) \<longleftrightarrow> P 0 \<or> (\<exists>i<length ps. P (Suc i))"
    by (metis less_Suc_eq_0_disj)
  show ?case
    by (auto simp: a Cons.IH [of "Suc j"] split)
qed

lemma distinct_key_index:
  assumes "distinct (map fst ps)" and "i < length ps" and "i' < length ps"
    and "fst (ps ! i) = fst (ps ! i')"
  shows "i = i'"
  using assms by (metis distinct_conv_nth length_map nth_map)

lemma pruner_entry:
  assumes "distinct (map fst (peers n))" and "i < length (peers n)" and "peers n ! i = (pid, p)"
  shows "map_of (peers (pruner clock n)) pid =
           (if clock i - peer_last_seen p > DISCOVERY_TIMEOUT then None else Some p)"
proof -
  have look: "map_of (peers n) pid = Some p"
    using assms by (metis map_of_is_SomeI nth_mem)
  have "pid \<in> set (pruner_collect clock 0 (peers n)) \<longleftrightarrow>
          clock i - peer_last_seen p > DISCOVERY_TIMEOUT"
  proof
    assume "pid \<in> set (pruner_collect clock 0 (peers n))"
    then obtain i' where i': "i' < length (peers n)" "fst (peers n ! i') = pid"
        "clock i' - peer_last_seen (snd (peers n ! i')) > DISCOVERY_TIMEOUT"
      by (auto simp: pruner_collect_iff)
    with assms have "i' = i" by (simp add: distinct_key_index)
    with i' assms(3) show "clock i - peer_last_seen p > DISCOVERY_TIMEOUT" by simp
  next
    assume "clock i - peer_last_seen p > DISCOVERY_TIMEOUT"
    with assms(2,3) show "pid \<in> set (pruner_collect clock 0 (peers n))"
      by (auto simp: pruner_collect_iff intro!: exI [of _ i])
  qed
  with look show ?thesis by (simp add: pruner_def fold_delete_map_of)
qed

lemma listener_recv_entry:
  assumes "h_type obj = Some ''hello''" and "h_id obj \<noteq> Some (node_id n)"
    and "h_tcp_port obj = Some prt"
  shows "map_of (peers (listener_recv n (Some obj) addr t)) (h_id obj) =
           Some \<lparr>peer_id = h_id obj, peer_name = h_name obj, host = addr, port = prt,
                 peer_last_seen = t\<rparr>"
  using assms by (simp add: listener_recv_def AList.update_conv')

text \<open>
  C9. In a peer table with one record for each key, one sweep of the pruner removes the
  record at position \<open>i\<close> exactly when the clock reading taken for it, minus its
  \<open>last_seen\<close>, exceeds \<open>DISCOVERY_TIMEOUT\<close>; a record that stays is unchanged. So a record
  with \<open>last_seen = t\<close> is present after every sweep whose readings are at most
  \<open>t + DISCOVERY_TIMEOUT\<close> and absent after a sweep whose readings are all later.
\<close>

theorem pruner_removes_exactly_expired:
  assumes "distinct (map fst (peers n))" and "i < length (peers n)" and "peers n ! i = (pid, p)"
  shows "map_of (peers (pruner clock n)) pid =
           (if clock i - peer_last_seen p > DISCOVERY_TIMEOUT then None else Some p)
         \<and> ((\<forall>m. clock m \<le> peer_last_seen p + DISCOVERY_TIMEOUT) \<longrightarrow>
               map_of (peers (pruner clock n)) pid = Some p)
         \<and> ((\<forall>m. clock m > peer_last_seen p + DISCOVERY_TIMEOUT) \<longrightarrow>
               map_of (peers (pruner clock n)) pid = None)"
proof -
  have e: "map_of (peers (pruner clock n)) pid =
           (if clock i - peer_last_seen p > DISCOVERY_TIMEOUT then None else Some p)"
    using assms by (rule pruner_entry)
  have a: "(\<forall>m. clock m \<le> peer_last_seen p + DISCOVERY_TIMEOUT) \<longrightarrow>
               map_of (peers (pruner clock n)) pid = Some p"
  proof
    assume "\<forall>m. clock m \<le> peer_last_seen p + DISCOVERY_TIMEOUT"
    then have "clock i \<le> peer_last_seen p + DISCOVERY_TIMEOUT" by blast
    then have "\<not> clock i - peer_last_seen p > DISCOVERY_TIMEOUT" by simp
    with e show "map_of (peers (pruner clock n)) pid = Some p" by simp
  qed
  have b: "(\<forall>m. clock m > peer_last_seen p + DISCOVERY_TIMEOUT) \<longrightarrow>
               map_of (peers (pruner clock n)) pid = None"
  proof
    assume "\<forall>m. clock m > peer_last_seen p + DISCOVERY_TIMEOUT"
    then have "clock i > peer_last_seen p + DISCOVERY_TIMEOUT" by blast
    then have "clock i - peer_last_seen p > DISCOVERY_TIMEOUT" by simp
    with e show "map_of (peers (pruner clock n)) pid = None" by simp
  qed
  from e a b show ?thesis by blast
qed

text \<open>At time 10, the record last seen at 1 is removed and the record last seen at 5
  stays.\<close>

theorem pruner_removes_exactly_expired_witness:
  "distinct (map fst (peers watching_node)) \<and> 0 < length (peers watching_node)
   \<and> peers watching_node ! 0 = (Some ''P'', old_peer)
   \<and> (10::real) - peer_last_seen old_peer > DISCOVERY_TIMEOUT
   \<and> map_of (peers (pruner (\<lambda>m. 10) watching_node)) (Some ''P'') = None
   \<and> peers watching_node ! 1 = (Some ''Q'', new_peer)
   \<and> \<not> (10::real) - peer_last_seen new_peer > DISCOVERY_TIMEOUT
   \<and> map_of (peers (pruner (\<lambda>m. 10) watching_node)) (Some ''Q'') = Some new_peer"
proof -
  have d: "distinct (map fst (peers watching_node))" by (simp add: watching_node_def)
  have l0: "0 < length (peers watching_node)" by (simp add: watching_node_def)
  have l1: "1 < length (peers watching_node)" by (simp add: watching_node_def)
  have e0: "peers watching_node ! 0 = (Some ''P'', old_peer)" by (simp add: watching_node_def)
  have e1: "peers watching_node ! 1 = (Some ''Q'', new_peer)" by (simp add: watching_node_def)
  have t0: "(10::real) - peer_last_seen old_peer > DISCOVERY_TIMEOUT"
    by (simp add: old_peer_def DISCOVERY_TIMEOUT_def)
  have t1: "\<not> (10::real) - peer_last_seen new_peer > DISCOVERY_TIMEOUT"
    by (simp add: new_peer_def DISCOVERY_TIMEOUT_def)
  from pruner_removes_exactly_expired [OF d l0 e0, of "\<lambda>m. 10"] t0
  have r0: "map_of (peers (pruner (\<lambda>m. 10) watching_node)) (Some ''P'') = None" by simp
  from pruner_removes_exactly_expired [OF d l1 e1, of "\<lambda>m. 10"] t1
  have r1: "map_of (peers (pruner (\<lambda>m. 10) watching_node)) (Some ''Q'') = Some new_peer" by simp
  from d l0 e0 t0 r0 e1 t1 r1 show ?thesis by simp
qed

section \<open>The handshake and the connection registry\<close>

lemma store_connection_str:
  "p ''id'' = Some (AStr k) \<Longrightarrow>
   store_connection n p = Inr (n\<lparr>connections := (connections n)(Some k \<mapsto> p)\<rparr>)"
  by (simp add: store_connection_def)

lemma accept_connect_changed:
  assumes "fst (accept_connect n msg ack written) \<noteq> n"
  shows "\<exists>p. m_profile msg = Some p
           \<and> store_connection n p = Inr (fst (accept_connect n msg ack written))"
  using assms by (auto simp: accept_connect_def split: option.splits sum.splits)

lemma accept_connect_str:
  assumes "m_profile msg = Some p" and "p ''id'' = Some (AStr k)"
  shows "fst (accept_connect n msg ack written) = n\<lparr>connections := (connections n)(Some k \<mapsto> p)\<rparr>"
  using assms by (simp add: accept_connect_def store_connection_str)

lemma handle_client_changed:
  assumes "fst (handle_client n io) \<noteq> n"
  shows "\<exists>msg p. m_type msg = Some ''connect'' \<and> m_profile msg = Some p
           \<and> store_connection n p = Inr (fst (handle_client n io))
           \<and> (r_first io = Msg msg
               \<or> (\<exists>v. r_first io = Msg v \<and> m_type v = Some ''verify''
                     \<and> verify_match (node_profile n) (m_field v) (m_value v)
                     \<and> r_result_sent io \<and> r_second io = Msg msg))"
proof (cases "r_first io")
  case Eof
  with assms show ?thesis by (simp add: handle_client_def)
next
  case Broken
  with assms show ?thesis by (simp add: handle_client_def)
next
  case (Msg v)
  show ?thesis
  proof (cases "m_type v = Some ''verify''")
    case True
    with assms Msg have m: "verify_match (node_profile n) (m_field v) (m_value v)"
        and s: "r_result_sent io"
      by (auto simp: handle_client_def Let_def split: if_splits)
    with assms Msg True obtain msg where msg: "r_second io = Msg msg"
      by (cases "r_second io") (auto simp: handle_client_def Let_def)
    with assms Msg True m s have c: "m_type msg = Some ''connect''"
      by (auto simp: handle_client_def Let_def split: if_splits)
    with Msg True m s msg have eq: "handle_client n io =
        accept_connect n msg (r_ack_sent io) [VerifyResult True]"
      by (simp add: handle_client_def Let_def)
    with assms obtain p where "m_profile msg = Some p"
        "store_connection n p = Inr (fst (handle_client n io))"
      using accept_connect_changed [of n msg "r_ack_sent io" "[VerifyResult True]"] by auto
    with Msg True m s msg c show ?thesis by blast
  next
    case False
    with assms Msg have c: "m_type v = Some ''connect''"
      by (auto simp: handle_client_def split: if_splits)
    with Msg False have eq: "handle_client n io = accept_connect n v (r_ack_sent io) []"
      by (simp add: handle_client_def)
    with assms obtain p where "m_profile v = Some p"
        "store_connection n p = Inr (fst (handle_client n io))"
      using accept_connect_changed [of n v "r_ack_sent io" "[]"] by auto
    with Msg c show ?thesis by blast
  qed
qed

lemma handle_client_verified:
  assumes "r_first io = Msg v" and "m_type v = Some ''verify''"
    and "verify_match (node_profile n) (m_field v) (m_value v)" and "r_result_sent io"
    and "r_second io = Msg msg" and "m_type msg = Some ''connect''"
    and "m_profile msg = Some p" and "p ''id'' = Some (AStr k)"
  shows "fst (handle_client n io) = n\<lparr>connections := (connections n)(Some k \<mapsto> p)\<rparr>"
  using assms by (simp add: handle_client_def Let_def accept_connect_str)

lemma handle_client_direct:
  assumes "r_first io = Msg msg" and "m_type msg = Some ''connect''"
    and "m_profile msg = Some p" and "p ''id'' = Some (AStr k)"
  shows "fst (handle_client n io) = n\<lparr>connections := (connections n)(Some k \<mapsto> p)\<rparr>"
  using assms by (simp add: handle_client_def accept_connect_str)

lemma attempt_changed:
  assumes "attempt_random_connection n r typed io \<noteq> n"
  shows "i_connected io \<and> i_verify_sent io \<and> i_connect_sent io
         \<and> (\<exists>resp ack their. i_reply io = Msg resp \<and> m_ok resp \<and> i_ack io = Msg ack
               \<and> m_profile ack = Some their
               \<and> store_connection n their = Inr (attempt_random_connection n r typed io))"
  using assms
  by (auto simp: attempt_random_connection_def
      split: sum.splits if_splits line.splits option.splits)

lemma attempt_completed:
  assumes "candidates n \<noteq> []" and "strip typed \<noteq> []"
    and "i_connected io" and "i_verify_sent io" and "i_reply io = Msg resp" and "m_ok resp"
    and "i_connect_sent io" and "i_ack io = Msg ack" and "m_profile ack = Some their"
    and "their ''id'' = Some (AStr k)"
  shows "attempt_random_connection n r typed io =
           n\<lparr>connections := (connections n)(Some k \<mapsto> their)\<rparr>"
proof -
  from assms(1) obtain c where "random_choice r (candidates n) = Inr c"
    using random_choice_in by blast
  with assms show ?thesis
    by (simp add: attempt_random_connection_def store_connection_str)
qed

text \<open>
  C3 (amended). The initiator changes its registry only when it has connected and sent
  \<open>verify\<close>, read a reply whose \<open>ok\<close> is truthy, sent \<open>connect\<close> and read a line that
  carries a profile; the entry is this profile under its id. With a candidate peer and a
  non-blank answer, these steps and a profile with a string id do create the entry. An
  end of stream, a failed or malformed read, a failed write or a falsy \<open>ok\<close> leave the
  registry as it is. The responder changes its registry only when it reads a \<open>connect\<close>
  message that carries a profile, either as the second message after a \<open>verify\<close> that
  matched and whose \<open>verify_result\<close> it has written, or as the first message of the
  stream, with no \<open>verify\<close> at all; in both cases a profile with a string id is entered
  before \<open>connect_ack\<close> is written, whether that write succeeds or not.
\<close>

theorem handshake_registry:
  "(attempt_random_connection n r typed io \<noteq> n \<longrightarrow>
      i_connected io \<and> i_verify_sent io \<and> i_connect_sent io
      \<and> (\<exists>resp ack their. i_reply io = Msg resp \<and> m_ok resp \<and> i_ack io = Msg ack
            \<and> m_profile ack = Some their
            \<and> store_connection n their = Inr (attempt_random_connection n r typed io)))
   \<and> (candidates n \<noteq> [] \<and> strip typed \<noteq> [] \<and> i_connected io \<and> i_verify_sent io
        \<and> i_reply io = Msg resp \<and> m_ok resp \<and> i_connect_sent io \<and> i_ack io = Msg ack
        \<and> m_profile ack = Some their \<and> their ''id'' = Some (AStr k) \<longrightarrow>
      attempt_random_connection n r typed io = n\<lparr>connections := (connections n)(Some k \<mapsto> their)\<rparr>)
   \<and> (fst (handle_client n rio) \<noteq> n \<longrightarrow>
      (\<exists>msg p. m_type msg = Some ''connect'' \<and> m_profile msg = Some p
           \<and> store_connection n p = Inr (fst (handle_client n rio))
           \<and> (r_first rio = Msg msg
               \<or> (\<exists>v. r_first rio = Msg v \<and> m_type v = Some ''verify''
                     \<and> verify_match (node_profile n) (m_field v) (m_value v)
                     \<and> r_result_sent rio \<and> r_second rio = Msg msg))))
   \<and> (r_first rio = Msg v \<and> m_type v = Some ''verify''
        \<and> verify_match (node_profile n) (m_field v) (m_value v) \<and> r_result_sent rio
        \<and> r_second rio = Msg msg \<and> m_type msg = Some ''connect''
        \<and> m_profile msg = Some p \<and> p ''id'' = Some (AStr j) \<longrightarrow>
      fst (handle_client n rio) = n\<lparr>connections := (connections n)(Some j \<mapsto> p)\<rparr>)
   \<and> (r_first rio = Msg msg \<and> m_type msg = Some ''connect''
        \<and> m_profile msg = Some p \<and> p ''id'' = Some (AStr j) \<longrightarrow>
      fst (handle_client n rio) = n\<lparr>connections := (connections n)(Some j \<mapsto> p)\<rparr>)"
proof -
  have a: "attempt_random_connection n r typed io \<noteq> n \<longrightarrow>
      i_connected io \<and> i_verify_sent io \<and> i_connect_sent io
      \<and> (\<exists>resp ack their. i_reply io = Msg resp \<and> m_ok resp \<and> i_ack io = Msg ack
            \<and> m_profile ack = Some their
            \<and> store_connection n their = Inr (attempt_random_connection n r typed io))"
    using attempt_changed by blast
  have b: "candidates n \<noteq> [] \<and> strip typed \<noteq> [] \<and> i_connected io \<and> i_verify_sent io
        \<and> i_reply io = Msg resp \<and> m_ok resp \<and> i_connect_sent io \<and> i_ack io = Msg ack
        \<and> m_profile ack = Some their \<and> their ''id'' = Some (AStr k) \<longrightarrow>
      attempt_random_connection n r typed io = n\<lparr>connections := (connections n)(Some k \<mapsto> their)\<rparr>"
    using attempt_completed by blast
  have c: "fst (handle_client n rio) \<noteq> n \<longrightarrow>
      (\<exists>msg p. m_type msg = Some ''connect'' \<and> m_profile msg = Some p
           \<and> store_connection n p = Inr (fst (handle_client n rio))
           \<and> (r_first rio = Msg msg
               \<or> (\<exists>v. r_first rio = Msg v \<and> m_type v = Some ''verify''
                     \<and> verify_match (node_profile n) (m_field v) (m_value v)
                     \<and> r_result_sent rio \<and> r_second rio = Msg msg)))"
    using handle_client_changed by blast
  have d: "r_first rio = Msg v \<and> m_type v = Some ''verify''
        \<and> verify_match (node_profile n) (m_field v) (m_value v) \<and> r_result_sent rio
        \<and> r_second rio = Msg msg \<and> m_type msg = Some ''connect''
        \<and> m_profile msg = Some p \<and> p ''id'' = Some (AStr j) \<longrightarrow>
      fst (handle_client n rio) = n\<lparr>connections := (connections n)(Some j \<mapsto> p)\<rparr>"
    using handle_client_verified by blast
  have e: "r_first rio = Msg msg \<and> m_type msg = Some ''connect''
        \<and> m_profile msg = Some p \<and> p ''id'' = Some (AStr j) \<longrightarrow>
      fst (handle_client n rio) = n\<lparr>connections := (connections n)(Some j \<mapsto> p)\<rparr>"
    using handle_client_direct by blast
  from a b c d e show ?thesis by blast
qed

lemma new_entry_changes:
  assumes "connections n k = None"
  shows "n\<lparr>connections := (connections n)(k \<mapsto> p)\<rparr> \<noteq> n"
proof
  assume "n\<lparr>connections := (connections n)(k \<mapsto> p)\<rparr> = n"
  then have "connections (n\<lparr>connections := (connections n)(k \<mapsto> p)\<rparr>) k = connections n k"
    by (rule arg_cong [where f = "\<lambda>m. connections m k"])
  with assms show False by simp
qed

lemma hobby_matches: "verify_match (node_profile bea_node) (m_field verify_hobby) (m_value verify_hobby)"
proof -
  have n1: "norm (Some '' GO '') = ''go''"
    by (simp add: norm_def lower_def strip_def py_str_def py_isspace_def py_lower_char_def)
  have n2: "norm (Some ''go'') = ''go''"
    by (simp add: norm_def lower_def strip_def py_str_def py_isspace_def py_lower_char_def)
  have n3: "norm (Some ''Chess'') = ''chess''"
    by (simp add: norm_def lower_def strip_def py_str_def py_isspace_def py_lower_char_def)
  have h: "bea_profile ''hobbies'' = Some (AList [''Chess'', ''go''])"
    by (simp add: bea_profile_def)
  from n1 n2 n3 h show ?thesis
    by (simp add: verify_match_def profile_get_def verify_hobby_def bea_node_def)
qed

text \<open>A completed handshake between the initiator A and the responder B.\<close>

theorem handshake_registry_witness:
  "candidates watching_node \<noteq> [] \<and> strip ''go'' \<noteq> []
   \<and> i_connected complete_io \<and> i_verify_sent complete_io \<and> i_reply complete_io = Msg result_ok
   \<and> m_ok result_ok \<and> i_connect_sent complete_io \<and> i_ack complete_io = Msg ack_bea
   \<and> m_profile ack_bea = Some (full_profile bea_node)
   \<and> full_profile bea_node ''id'' = Some (AStr ''B'')
   \<and> attempt_random_connection watching_node 0 ''go'' complete_io =
       watching_node\<lparr>connections := (connections watching_node)(Some ''B'' \<mapsto> full_profile bea_node)\<rparr>
   \<and> attempt_random_connection watching_node 0 ''go'' complete_io \<noteq> watching_node
   \<and> r_first verified_io = Msg verify_hobby \<and> m_type verify_hobby = Some ''verify''
   \<and> verify_match (node_profile bea_node) (m_field verify_hobby) (m_value verify_hobby)
   \<and> r_result_sent verified_io \<and> r_second verified_io = Msg connect_al
   \<and> m_type connect_al = Some ''connect'' \<and> m_profile connect_al = Some al_profile
   \<and> al_profile ''id'' = Some (AStr ''A'')
   \<and> fst (handle_client bea_node verified_io) =
       bea_node\<lparr>connections := (connections bea_node)(Some ''A'' \<mapsto> al_profile)\<rparr>
   \<and> fst (handle_client bea_node verified_io) \<noteq> bea_node
   \<and> r_first direct_io = Msg connect_al
   \<and> fst (handle_client bea_node direct_io) =
       bea_node\<lparr>connections := (connections bea_node)(Some ''A'' \<mapsto> al_profile)\<rparr>"
proof -
  have i1: "candidates watching_node \<noteq> []"
    by (simp add: candidates_def watching_node_def)
  have i2: "strip ''go'' \<noteq> []" by (simp add: strip_def py_isspace_def)
  have i3: "i_connected complete_io" "i_verify_sent complete_io" "i_reply complete_io = Msg result_ok"
    "m_ok result_ok" "i_connect_sent complete_io" "i_ack complete_io = Msg ack_bea"
    "m_profile ack_bea = Some (full_profile bea_node)"
    by (simp_all add: complete_io_def result_ok_def ack_bea_def)
  have i4: "full_profile bea_node ''id'' = Some (AStr ''B'')"
    by (simp add: full_profile_def bea_node_def)
  note t = handshake_registry [where n = watching_node and r = 0 and typed = "''go''"
      and io = complete_io and resp = result_ok and ack = ack_bea
      and their = "full_profile bea_node" and k = "''B''"]
  from t i1 i2 i3 i4 have i5: "attempt_random_connection watching_node 0 ''go'' complete_io =
       watching_node\<lparr>connections := (connections watching_node)(Some ''B'' \<mapsto> full_profile bea_node)\<rparr>"
    by blast
  have "connections watching_node (Some ''B'') = None" by (simp add: watching_node_def)
  with i5 have i6: "attempt_random_connection watching_node 0 ''go'' complete_io \<noteq> watching_node"
    by (simp add: new_entry_changes)
  have r1: "r_first verified_io = Msg verify_hobby" "m_type verify_hobby = Some ''verify''"
    "r_result_sent verified_io" "r_second verified_io = Msg connect_al"
    "m_type connect_al = Some ''connect''" "m_profile connect_al = Some al_profile"
    "al_profile ''id'' = Some (AStr ''A'')" "r_first direct_io = Msg connect_al"
    by (simp_all add: verified_io_def verify_hobby_def connect_al_def al_profile_def direct_io_def)
  note u = handshake_registry [where n = bea_node and rio = verified_io and v = verify_hobby
      and msg = connect_al and p = al_profile and j = "''A''"]
  from u r1 hobby_matches have r2: "fst (handle_client bea_node verified_io) =
       bea_node\<lparr>connections := (connections bea_node)(Some ''A'' \<mapsto> al_profile)\<rparr>"
    by blast
  have "connections bea_node (Some ''A'') = None" by (simp add: bea_node_def)
  with r2 have r3: "fst (handle_client bea_node verified_io) \<noteq> bea_node"
    by (simp add: new_entry_changes)
  note w = handshake_registry [where n = bea_node and rio = direct_io
      and msg = connect_al and p = al_profile and j = "''A''"]
  from w r1 have r4: "fst (handle_client bea_node direct_io) =
       bea_node\<lparr>connections := (connections bea_node)(Some ''A'' \<mapsto> al_profile)\<rparr>"
    by blast
  from i1 i2 i3 i4 i5 i6 r1 hobby_matches r2 r3 r4 show ?thesis by simp
qed

text \<open>
  C3 as stated fails: the first message that the responder reads is \<open>connect\<close>. There is no
  \<open>verify\<close> and no \<open>verify_result\<close>, and the write of \<open>connect_ack\<close> fails; the responder
  has entered the sender's profile all the same.
\<close>

theorem connect_without_verify_counterexample:
  "connections bea_node (Some ''A'') = None
   \<and> r_first direct_io = Msg connect_al \<and> m_type connect_al = Some ''connect''
   \<and> r_ack_sent direct_io = False
   \<and> snd (handle_client bea_node direct_io) = []
   \<and> connections (fst (handle_client bea_node direct_io)) (Some ''A'') = Some al_profile"
proof -
  have a: "al_profile ''id'' = Some (AStr ''A'')" by (simp add: al_profile_def)
  have b: "connections bea_node (Some ''A'') = None" by (simp add: bea_node_def)
  from a have "handle_client bea_node direct_io =
      (bea_node\<lparr>connections := (connections bea_node)(Some ''A'' \<mapsto> al_profile)\<rparr>, [])"
    by (simp add: handle_client_def direct_io_def connect_al_def accept_connect_def
        store_connection_str)
  with b show ?thesis by (simp add: direct_io_def connect_al_def)
qed

end
